theory Spec2Isabelle
  imports Main
begin

section \<open>Data model (internal/models.py)\<close>

text \<open>
  Identifiers are UUIDs; only their equality is ever used, so they are natural numbers
  here. A price is a \<^verbatim>\<open>Numeric(precision=12, scale=2)\<close> column: a fixed-point
  number with two fractional digits, kept as its number of hundredths.
\<close>

type_synonym uuid = nat
type_synonym decimal = int

text \<open>
  The three tables. A row of \<^verbatim>\<open>dishes\<close> is also what the service reads of a
  loaded \<^verbatim>\<open>Dish\<close>: its \<^verbatim>\<open>submenu\<close> relationship is never touched.
\<close>

record Dish =
  d_id :: uuid
  d_title :: string
  d_description :: string
  d_price :: decimal
  d_submenu_id :: uuid

record SubmenuRow =
  sr_id :: uuid
  sr_title :: string
  sr_description :: string
  sr_menu_id :: uuid

record MenuRow =
  mr_id :: uuid
  mr_title :: string
  mr_description :: string

record database =
  menus :: "MenuRow list"
  submenus :: "SubmenuRow list"
  dishes :: "Dish list"

text \<open>
  An \<^verbatim>\<open>AsyncSession\<close>. \<^verbatim>\<open>Database.session_callable\<close> is an
  \<^verbatim>\<open>async_sessionmaker\<close>: every call of \<^verbatim>\<open>get_session()\<close> makes a new
  session. Within one service call the sessions are numbered in the order they are opened.
\<close>

datatype session = Session nat

text \<open>
  Loaded entities. \<^verbatim>\<open>Menu.submenus\<close> and \<^verbatim>\<open>Submenu.dishes\<close> are
  \<^verbatim>\<open>lazy="selectin"\<close> relationships: they are filled when the entity is loaded,
  by the session that loads it. A loaded \<^verbatim>\<open>Submenu\<close> remembers that session,
  because the service compares \<^verbatim>\<open>Submenu\<close> objects (see \<open>submenu_in\<close>).
\<close>

record Submenu =
  s_id :: uuid
  s_title :: string
  s_description :: string
  s_menu_id :: uuid
  s_dishes :: "Dish list"
  s_session :: session

record Menu =
  m_id :: uuid
  m_title :: string
  m_description :: string
  m_submenus :: "Submenu list"

definition load_submenu :: "session \<Rightarrow> database \<Rightarrow> SubmenuRow \<Rightarrow> Submenu" where
  "load_submenu sess db r =
     \<lparr>s_id = sr_id r, s_title = sr_title r, s_description = sr_description r,
      s_menu_id = sr_menu_id r,
      s_dishes = filter (\<lambda>d. d_submenu_id d = sr_id r) (dishes db),
      s_session = sess\<rparr>"

definition load_menu :: "session \<Rightarrow> database \<Rightarrow> MenuRow \<Rightarrow> Menu" where
  "load_menu sess db r =
     \<lparr>m_id = mr_id r, m_title = mr_title r, m_description = mr_description r,
      m_submenus = map (load_submenu sess db)
                     (filter (\<lambda>s. sr_menu_id s = mr_id r) (submenus db))\<rparr>"

definition submenu_row :: "Submenu \<Rightarrow> SubmenuRow" where
  "submenu_row s =
     \<lparr>sr_id = s_id s, sr_title = s_title s, sr_description = s_description s,
      sr_menu_id = s_menu_id s\<rparr>"

definition menu_row :: "Menu \<Rightarrow> MenuRow" where
  "menu_row m = \<lparr>mr_id = m_id m, mr_title = m_title m, mr_description = m_description m\<rparr>"

text \<open>
  \<^verbatim>\<open>submenu not in menu.submenus\<close> (services.py, lines 67, 107, 151, 205, 254, 425,
  527). No class of the repository defines \<^verbatim>\<open>__eq__\<close> (\<^verbatim>\<open>Entity\<close>,
  \<^verbatim>\<open>DatabaseEntity\<close>, \<^verbatim>\<open>Submenu\<close>), so Python's \<^verbatim>\<open>in\<close> compares
  objects by identity. A session keeps one object per primary key (its identity map), and two
  sessions never share an object: two loaded \<^verbatim>\<open>Submenu\<close>s are the same object
  exactly when the same session loaded the same row.
\<close>

definition submenu_is :: "Submenu \<Rightarrow> Submenu \<Rightarrow> bool" where
  "submenu_is a b = (s_session a = s_session b \<and> s_id a = s_id b)"

definition submenu_in :: "Submenu \<Rightarrow> Submenu list \<Rightarrow> bool" where
  "submenu_in x xs = list_ex (submenu_is x) xs"

section \<open>Errors (internal/exceptions.py, and the storage layer's)\<close>

datatype error =
    DishNotFoundError uuid
  | MenuNotFoundError uuid
  | SubmenuNotFoundError uuid
  | SubmenuNotIncludedInMenuError uuid uuid
  | MultipleResultsFound
  | IntegrityError
  | DataError

section \<open>The generic repository (internal/bases.py)\<close>

text \<open>\<^verbatim>\<open>Result.one_or_none()\<close>: raises when more than one row matches.\<close>

definition one_or_none :: "'r list \<Rightarrow> error + 'r option" where
  "one_or_none rows =
     (case rows of
        [] \<Rightarrow> Inr None
      | [r] \<Rightarrow> Inr (Some r)
      | _ \<Rightarrow> Inl MultipleResultsFound)"

text \<open>
  \<^verbatim>\<open>_wrap_session\<close>: the caller's session, or a session of the repository's own
  (\<open>wrapped_session\<close>, what \<^verbatim>\<open>self.get_session()\<close> returns) when the caller
  gave none.
\<close>

definition wrap_session :: "session option \<Rightarrow> session \<Rightarrow> session" where
  "wrap_session sess wrapped_session =
     (case sess of None \<Rightarrow> wrapped_session | Some s \<Rightarrow> s)"

definition CRUDRepository_find :: "('r \<Rightarrow> uuid) \<Rightarrow> 'r list \<Rightarrow> uuid \<Rightarrow> error + 'r option" where
  "CRUDRepository_find key table entity_id =
     one_or_none (filter (\<lambda>r. key r = entity_id) table)"

definition CRUDRepository_find_all :: "'r list \<Rightarrow> 'r list" where
  "CRUDRepository_find_all table = table"

definition CRUDRepository_delete :: "('r \<Rightarrow> uuid) \<Rightarrow> 'r list \<Rightarrow> uuid \<Rightarrow> 'r list" where
  "CRUDRepository_delete key table entity_id = filter (\<lambda>r. key r \<noteq> entity_id) table"

text \<open>
  \<^verbatim>\<open>save\<close> is \<^verbatim>\<open>session.add(entity)\<close> and a flush. The flush inserts a
  transient entity (one the service has just constructed; its identifier is the one the
  store generates, \<^verbatim>\<open>gen_random_uuid()\<close>, and the primary key rejects a
  duplicate) and updates a persistent one (one the session has loaded).
\<close>

datatype entity_state = Transient | Persistent

definition CRUDRepository_save ::
    "('r \<Rightarrow> uuid) \<Rightarrow> 'r list \<Rightarrow> entity_state \<Rightarrow> 'r \<Rightarrow> error + 'r list" where
  "CRUDRepository_save key table st entity =
     (case st of
        Transient \<Rightarrow>
          if key entity \<in> set (map key table) then Inl IntegrityError
          else Inr (table @ [entity])
      | Persistent \<Rightarrow>
          Inr (map (\<lambda>r. if key r = key entity then entity else r) table))"

section \<open>The three repositories (internal/repositories.py)\<close>

text \<open>
  Each binds the generic repository to one table; the constraints are the columns'
  (models.py): the precision of \<^verbatim>\<open>price\<close> (at most ten digits before the
  point), and the foreign keys, checked when a row is inserted (the service never changes
  a \<^verbatim>\<open>menu_id\<close> or \<^verbatim>\<open>submenu_id\<close>), with
  \<^verbatim>\<open>ON DELETE CASCADE\<close>.
\<close>

definition numeric_12_2 :: "decimal \<Rightarrow> bool" where
  "numeric_12_2 p = (\<bar>p\<bar> < 10 ^ 12)"

definition MenuRepository_find ::
    "database \<Rightarrow> uuid \<Rightarrow> session option \<Rightarrow> session \<Rightarrow> error + Menu option" where
  "MenuRepository_find db entity_id sess wrapped_session =
     (case CRUDRepository_find mr_id (menus db) entity_id of
        Inl e \<Rightarrow> Inl e
      | Inr found \<Rightarrow> Inr (map_option (load_menu (wrap_session sess wrapped_session) db) found))"

definition SubmenuRepository_find ::
    "database \<Rightarrow> uuid \<Rightarrow> session option \<Rightarrow> session \<Rightarrow> error + Submenu option" where
  "SubmenuRepository_find db entity_id sess wrapped_session =
     (case CRUDRepository_find sr_id (submenus db) entity_id of
        Inl e \<Rightarrow> Inl e
      | Inr found \<Rightarrow> Inr (map_option (load_submenu (wrap_session sess wrapped_session) db) found))"

definition DishRepository_find ::
    "database \<Rightarrow> uuid \<Rightarrow> session option \<Rightarrow> session \<Rightarrow> error + Dish option" where
  "DishRepository_find db entity_id sess wrapped_session =
     CRUDRepository_find d_id (dishes db) entity_id"

definition MenuRepository_find_all :: "database \<Rightarrow> session option \<Rightarrow> session \<Rightarrow> Menu list" where
  "MenuRepository_find_all db sess wrapped_session =
     map (load_menu (wrap_session sess wrapped_session) db) (CRUDRepository_find_all (menus db))"

definition SubmenuRepository_find_all ::
    "database \<Rightarrow> session option \<Rightarrow> session \<Rightarrow> Submenu list" where
  "SubmenuRepository_find_all db sess wrapped_session =
     map (load_submenu (wrap_session sess wrapped_session) db)
       (CRUDRepository_find_all (submenus db))"

text \<open>
  \<^verbatim>\<open>save\<close> returns the entity refreshed from the store
  (\<^verbatim>\<open>session.refresh(entity)\<close>).
\<close>

definition MenuRepository_save ::
    "database \<Rightarrow> entity_state \<Rightarrow> Menu \<Rightarrow> session option \<Rightarrow> session
     \<Rightarrow> error + (database \<times> Menu)" where
  "MenuRepository_save db st entity sess wrapped_session =
     (case CRUDRepository_save mr_id (menus db) st (menu_row entity) of
        Inl e \<Rightarrow> Inl e
      | Inr table \<Rightarrow>
          let db' = db\<lparr>menus := table\<rparr>
          in Inr (db', load_menu (wrap_session sess wrapped_session) db' (menu_row entity)))"

definition SubmenuRepository_save ::
    "database \<Rightarrow> entity_state \<Rightarrow> Submenu \<Rightarrow> session option \<Rightarrow> session
     \<Rightarrow> error + (database \<times> Submenu)" where
  "SubmenuRepository_save db st entity sess wrapped_session =
     (case CRUDRepository_save sr_id (submenus db) st (submenu_row entity) of
        Inl e \<Rightarrow> Inl e
      | Inr table \<Rightarrow>
          if st = Transient \<and> s_menu_id entity \<notin> set (map mr_id (menus db))
          then Inl IntegrityError
          else
            let db' = db\<lparr>submenus := table\<rparr>
            in Inr (db', load_submenu (wrap_session sess wrapped_session) db'
                           (submenu_row entity)))"

definition DishRepository_save ::
    "database \<Rightarrow> entity_state \<Rightarrow> Dish \<Rightarrow> session option \<Rightarrow> session
     \<Rightarrow> error + (database \<times> Dish)" where
  "DishRepository_save db st entity sess wrapped_session =
     (if \<not> numeric_12_2 (d_price entity) then Inl DataError
      else
        case CRUDRepository_save d_id (dishes db) st entity of
          Inl e \<Rightarrow> Inl e
        | Inr table \<Rightarrow>
            if st = Transient \<and> d_submenu_id entity \<notin> set (map sr_id (submenus db))
            then Inl IntegrityError
            else Inr (db\<lparr>dishes := table\<rparr>, entity))"

text \<open>
  \<^verbatim>\<open>delete\<close> removes the entity's row; the store's cascade removes the rows that
  reference it.
\<close>

definition DishRepository_delete :: "database \<Rightarrow> Dish \<Rightarrow> database" where
  "DishRepository_delete db entity =
     db\<lparr>dishes := CRUDRepository_delete d_id (dishes db) (d_id entity)\<rparr>"

definition SubmenuRepository_delete :: "database \<Rightarrow> Submenu \<Rightarrow> database" where
  "SubmenuRepository_delete db entity =
     db\<lparr>submenus := CRUDRepository_delete sr_id (submenus db) (s_id entity),
        dishes := filter (\<lambda>d. d_submenu_id d \<noteq> s_id entity) (dishes db)\<rparr>"

definition MenuRepository_delete :: "database \<Rightarrow> Menu \<Rightarrow> database" where
  "MenuRepository_delete db entity =
     (let gone = map sr_id (filter (\<lambda>s. sr_menu_id s = m_id entity) (submenus db))
      in db\<lparr>menus := CRUDRepository_delete mr_id (menus db) (m_id entity),
            submenus := filter (\<lambda>s. sr_menu_id s \<noteq> m_id entity) (submenus db),
            dishes := filter (\<lambda>d. d_submenu_id d \<notin> set gone) (dishes db)\<rparr>)"

section \<open>The service (internal/services.py)\<close>

text \<open>The mappings the service returns.\<close>

record DishMapping =
  dm_id :: uuid
  dm_title :: string
  dm_description :: string
  dm_price :: decimal

record SubmenuMapping =
  sm_id :: uuid
  sm_title :: string
  sm_description :: string
  sm_dishes_count :: nat

record MenuMapping =
  mm_id :: uuid
  mm_title :: string
  mm_description :: string
  mm_dishes_count :: nat
  mm_submenus_count :: nat

definition dish_mapping :: "Dish \<Rightarrow> DishMapping" where
  "dish_mapping dish =
     \<lparr>dm_id = d_id dish, dm_title = d_title dish, dm_description = d_description dish,
      dm_price = d_price dish\<rparr>"

definition submenu_mapping :: "Submenu \<Rightarrow> SubmenuMapping" where
  "submenu_mapping submenu =
     \<lparr>sm_id = s_id submenu, sm_title = s_title submenu,
      sm_description = s_description submenu,
      sm_dishes_count = length (s_dishes submenu)\<rparr>"

definition menu_mapping :: "Menu \<Rightarrow> MenuMapping" where
  "menu_mapping menu =
     \<lparr>mm_id = m_id menu, mm_title = m_title menu, mm_description = m_description menu,
      mm_dishes_count = sum_list (map (\<lambda>submenu. length (s_dishes submenu)) (m_submenus menu)),
      mm_submenus_count = length (m_submenus menu)\<rparr>"

text \<open>
  Python's \<^verbatim>\<open>x or y\<close> on an optional argument: \<open>y\<close> when \<open>x\<close> is
  \<^verbatim>\<open>None\<close> or falsy. A string is falsy when empty, a \<^verbatim>\<open>Decimal\<close> when
  zero.
\<close>

definition py_or :: "('a \<Rightarrow> bool) \<Rightarrow> 'a option \<Rightarrow> 'a \<Rightarrow> 'a" where
  "py_or truthy x y = (case x of None \<Rightarrow> y | Some v \<Rightarrow> if truthy v then v else y)"

definition str_truthy :: "string \<Rightarrow> bool" where
  "str_truthy s = (s \<noteq> [])"

definition decimal_truthy :: "decimal \<Rightarrow> bool" where
  "decimal_truthy p = (p \<noteq> 0)"

text \<open>
  \<^verbatim>\<open>async with get_session() as session, session.begin():\<close> the body runs on the
  transaction's view of the store; leaving the block normally commits that view, leaving
  it by an exception rolls it back.
\<close>

definition session_begin ::
    "database \<Rightarrow> (database \<Rightarrow> database \<times> (error + 'a)) \<Rightarrow> database \<times> (error + 'a)" where
  "session_begin db body =
     (case body db of
        (db', Inl e) \<Rightarrow> (db, Inl e)
      | (db', Inr r) \<Rightarrow> (db', Inr r))"

subsection \<open>Dishes\<close>

text \<open>
  The read operations pass no session: each \<^verbatim>\<open>find\<close> opens a session of its
  own (\<open>Session 0\<close>, \<open>Session 1\<close>, \<open>Session 2\<close> in call order).
\<close>

definition get_dish_in_menu_submenu ::
    "database \<Rightarrow> uuid \<Rightarrow> uuid \<Rightarrow> uuid \<Rightarrow> error + DishMapping" where
  "get_dish_in_menu_submenu db menu_id submenu_id dish_id =
     (case MenuRepository_find db menu_id None (Session 0) of
        Inl e \<Rightarrow> Inl e
      | Inr None \<Rightarrow> Inl (MenuNotFoundError menu_id)
      | Inr (Some menu) \<Rightarrow>
     (case SubmenuRepository_find db submenu_id None (Session 1) of
        Inl e \<Rightarrow> Inl e
      | Inr None \<Rightarrow> Inl (SubmenuNotFoundError submenu_id)
      | Inr (Some submenu) \<Rightarrow>
          if \<not> submenu_in submenu (m_submenus menu)
          then Inl (SubmenuNotIncludedInMenuError menu_id submenu_id)
          else
     (case DishRepository_find db dish_id None (Session 2) of
        Inl e \<Rightarrow> Inl e
      | Inr None \<Rightarrow> Inl (DishNotFoundError dish_id)
      | Inr (Some dish) \<Rightarrow> Inr (dish_mapping dish))))"

definition get_dishes_in_menu_submenu ::
    "database \<Rightarrow> uuid \<Rightarrow> uuid \<Rightarrow> error + DishMapping list" where
  "get_dishes_in_menu_submenu db menu_id submenu_id =
     (case MenuRepository_find db menu_id None (Session 0) of
        Inl e \<Rightarrow> Inl e
      | Inr None \<Rightarrow> Inl (MenuNotFoundError menu_id)
      | Inr (Some menu) \<Rightarrow>
     (case SubmenuRepository_find db submenu_id None (Session 1) of
        Inl e \<Rightarrow> Inl e
      | Inr None \<Rightarrow> Inr []
      | Inr (Some submenu) \<Rightarrow>
          if \<not> submenu_in submenu (m_submenus menu)
          then Inl (SubmenuNotIncludedInMenuError menu_id submenu_id)
          else Inr (map dish_mapping (s_dishes submenu))))"

text \<open>
  The mutating operations open one session (\<open>Session 0\<close>), begin a transaction and
  pass that session to every repository call. \<open>generated_id\<close> is the identifier the
  store generates for the new row.
\<close>

definition add_dish_to_menu_submenu ::
    "database \<Rightarrow> uuid \<Rightarrow> uuid \<Rightarrow> uuid \<Rightarrow> string \<Rightarrow> string \<Rightarrow> decimal
     \<Rightarrow> database \<times> (error + DishMapping)" where
  "add_dish_to_menu_submenu db0 generated_id menu_id submenu_id title description price =
     session_begin db0 (\<lambda>db.
     (case MenuRepository_find db menu_id (Some (Session 0)) (Session 1) of
        Inl e \<Rightarrow> (db, Inl e)
      | Inr None \<Rightarrow> (db, Inl (MenuNotFoundError menu_id))
      | Inr (Some menu) \<Rightarrow>
     (case SubmenuRepository_find db submenu_id (Some (Session 0)) (Session 1) of
        Inl e \<Rightarrow> (db, Inl e)
      | Inr None \<Rightarrow> (db, Inl (SubmenuNotFoundError submenu_id))
      | Inr (Some submenu) \<Rightarrow>
          if \<not> submenu_in submenu (m_submenus menu)
          then (db, Inl (SubmenuNotIncludedInMenuError menu_id submenu_id))
          else
     (case DishRepository_save db Transient
             \<lparr>d_id = generated_id, d_title = title, d_description = description,
              d_price = price, d_submenu_id = submenu_id\<rparr>
             (Some (Session 0)) (Session 1) of
        Inl e \<Rightarrow> (db, Inl e)
      | Inr (db', dish) \<Rightarrow> (db', Inr (dish_mapping dish))))))"

definition correct_dish_in_menu_submenu ::
    "database \<Rightarrow> uuid \<Rightarrow> uuid \<Rightarrow> uuid \<Rightarrow> string option \<Rightarrow> string option \<Rightarrow> decimal option
     \<Rightarrow> database \<times> (error + DishMapping)" where
  "correct_dish_in_menu_submenu db0 menu_id submenu_id dish_id
       corrected_title corrected_description corrected_price =
     session_begin db0 (\<lambda>db.
     (case MenuRepository_find db menu_id (Some (Session 0)) (Session 1) of
        Inl e \<Rightarrow> (db, Inl e)
      | Inr None \<Rightarrow> (db, Inl (MenuNotFoundError menu_id))
      | Inr (Some menu) \<Rightarrow>
     (case SubmenuRepository_find db submenu_id (Some (Session 0)) (Session 1) of
        Inl e \<Rightarrow> (db, Inl e)
      | Inr None \<Rightarrow> (db, Inl (SubmenuNotFoundError submenu_id))
      | Inr (Some submenu) \<Rightarrow>
          if \<not> submenu_in submenu (m_submenus menu)
          then (db, Inl (SubmenuNotIncludedInMenuError menu_id submenu_id))
          else
     (case DishRepository_find db dish_id (Some (Session 0)) (Session 1) of
        Inl e \<Rightarrow> (db, Inl e)
      | Inr None \<Rightarrow> (db, Inl (DishNotFoundError dish_id))
      | Inr (Some dish) \<Rightarrow>
     (case DishRepository_save db Persistent
             (dish\<lparr>d_title := py_or str_truthy corrected_title (d_title dish),
                   d_description := py_or str_truthy corrected_description (d_description dish),
                   d_price := py_or decimal_truthy corrected_price (d_price dish)\<rparr>)
             (Some (Session 0)) (Session 1) of
        Inl e \<Rightarrow> (db, Inl e)
      | Inr (db', dish') \<Rightarrow> (db', Inr (dish_mapping dish')))))))"

definition remove_dish_from_menu_submenu ::
    "database \<Rightarrow> uuid \<Rightarrow> uuid \<Rightarrow> uuid \<Rightarrow> database \<times> (error + DishMapping)" where
  "remove_dish_from_menu_submenu db0 menu_id submenu_id dish_id =
     session_begin db0 (\<lambda>db.
     (case MenuRepository_find db menu_id (Some (Session 0)) (Session 1) of
        Inl e \<Rightarrow> (db, Inl e)
      | Inr None \<Rightarrow> (db, Inl (MenuNotFoundError menu_id))
      | Inr (Some menu) \<Rightarrow>
     (case SubmenuRepository_find db submenu_id (Some (Session 0)) (Session 1) of
        Inl e \<Rightarrow> (db, Inl e)
      | Inr None \<Rightarrow> (db, Inl (SubmenuNotFoundError submenu_id))
      | Inr (Some submenu) \<Rightarrow>
          if \<not> submenu_in submenu (m_submenus menu)
          then (db, Inl (SubmenuNotIncludedInMenuError menu_id submenu_id))
          else
     (case DishRepository_find db dish_id (Some (Session 0)) (Session 1) of
        Inl e \<Rightarrow> (db, Inl e)
      | Inr None \<Rightarrow> (db, Inl (DishNotFoundError dish_id))
      | Inr (Some dish) \<Rightarrow> (DishRepository_delete db dish, Inr (dish_mapping dish))))))"

subsection \<open>Menus\<close>

definition get_menu :: "database \<Rightarrow> uuid \<Rightarrow> error + MenuMapping" where
  "get_menu db menu_id =
     (case MenuRepository_find db menu_id None (Session 0) of
        Inl e \<Rightarrow> Inl e
      | Inr None \<Rightarrow> Inl (MenuNotFoundError menu_id)
      | Inr (Some menu) \<Rightarrow> Inr (menu_mapping menu))"

definition get_menus :: "database \<Rightarrow> MenuMapping list" where
  "get_menus db = map menu_mapping (MenuRepository_find_all db None (Session 0))"

definition create_menu ::
    "database \<Rightarrow> uuid \<Rightarrow> string \<Rightarrow> string \<Rightarrow> database \<times> (error + MenuMapping)" where
  "create_menu db0 generated_id title description =
     session_begin db0 (\<lambda>db.
     (case MenuRepository_save db Transient
             \<lparr>m_id = generated_id, m_title = title, m_description = description,
              m_submenus = []\<rparr>
             (Some (Session 0)) (Session 1) of
        Inl e \<Rightarrow> (db, Inl e)
      | Inr (db', menu) \<Rightarrow> (db', Inr (menu_mapping menu))))"

definition correct_menu ::
    "database \<Rightarrow> uuid \<Rightarrow> string option \<Rightarrow> string option
     \<Rightarrow> database \<times> (error + MenuMapping)" where
  "correct_menu db0 menu_id corrected_title corrected_description =
     session_begin db0 (\<lambda>db.
     (case MenuRepository_find db menu_id (Some (Session 0)) (Session 1) of
        Inl e \<Rightarrow> (db, Inl e)
      | Inr None \<Rightarrow> (db, Inl (MenuNotFoundError menu_id))
      | Inr (Some menu) \<Rightarrow>
     (case MenuRepository_save db Persistent
             (menu\<lparr>m_title := py_or str_truthy corrected_title (m_title menu),
                   m_description := py_or str_truthy corrected_description (m_description menu)\<rparr>)
             (Some (Session 0)) (Session 1) of
        Inl e \<Rightarrow> (db, Inl e)
      | Inr (db', menu') \<Rightarrow> (db', Inr (menu_mapping menu')))))"

definition delete_menu :: "database \<Rightarrow> uuid \<Rightarrow> database \<times> (error + MenuMapping)" where
  "delete_menu db0 menu_id =
     session_begin db0 (\<lambda>db.
     (case MenuRepository_find db menu_id (Some (Session 0)) (Session 1) of
        Inl e \<Rightarrow> (db, Inl e)
      | Inr None \<Rightarrow> (db, Inl (MenuNotFoundError menu_id))
      | Inr (Some menu) \<Rightarrow> (MenuRepository_delete db menu, Inr (menu_mapping menu))))"

subsection \<open>Submenus\<close>

definition get_menu_submenu :: "database \<Rightarrow> uuid \<Rightarrow> uuid \<Rightarrow> error + SubmenuMapping" where
  "get_menu_submenu db menu_id submenu_id =
     (case MenuRepository_find db menu_id None (Session 0) of
        Inl e \<Rightarrow> Inl e
      | Inr None \<Rightarrow> Inl (MenuNotFoundError menu_id)
      | Inr (Some menu) \<Rightarrow>
     (case SubmenuRepository_find db submenu_id None (Session 1) of
        Inl e \<Rightarrow> Inl e
      | Inr None \<Rightarrow> Inl (SubmenuNotFoundError submenu_id)
      | Inr (Some submenu) \<Rightarrow>
          if \<not> submenu_in submenu (m_submenus menu)
          then Inl (SubmenuNotIncludedInMenuError menu_id submenu_id)
          else Inr (submenu_mapping submenu)))"

definition get_menu_submenus :: "database \<Rightarrow> uuid \<Rightarrow> error + SubmenuMapping list" where
  "get_menu_submenus db menu_id =
     (case MenuRepository_find db menu_id None (Session 0) of
        Inl e \<Rightarrow> Inl e
      | Inr None \<Rightarrow> Inl (MenuNotFoundError menu_id)
      | Inr (Some menu) \<Rightarrow>
          Inr (map submenu_mapping (SubmenuRepository_find_all db None (Session 1))))"

definition create_menu_submenu ::
    "database \<Rightarrow> uuid \<Rightarrow> uuid \<Rightarrow> string \<Rightarrow> string \<Rightarrow> database \<times> (error + SubmenuMapping)" where
  "create_menu_submenu db0 generated_id menu_id title description =
     session_begin db0 (\<lambda>db.
     (case MenuRepository_find db menu_id (Some (Session 0)) (Session 1) of
        Inl e \<Rightarrow> (db, Inl e)
      | Inr None \<Rightarrow> (db, Inl (MenuNotFoundError menu_id))
      | Inr (Some menu) \<Rightarrow>
     (case SubmenuRepository_save db Transient
             \<lparr>s_id = generated_id, s_title = title, s_description = description,
              s_menu_id = menu_id, s_dishes = [], s_session = Session 0\<rparr>
             (Some (Session 0)) (Session 1) of
        Inl e \<Rightarrow> (db, Inl e)
      | Inr (db', submenu) \<Rightarrow>
          (db', Inr \<lparr>sm_id = s_id submenu, sm_title = s_title submenu,
                     sm_description = m_description menu,
                     sm_dishes_count = length (s_dishes submenu)\<rparr>))))"

definition correct_menu_submenu ::
    "database \<Rightarrow> uuid \<Rightarrow> uuid \<Rightarrow> string option \<Rightarrow> string option
     \<Rightarrow> database \<times> (error + SubmenuMapping)" where
  "correct_menu_submenu db0 menu_id submenu_id corrected_title corrected_description =
     session_begin db0 (\<lambda>db.
     (case MenuRepository_find db menu_id (Some (Session 0)) (Session 1) of
        Inl e \<Rightarrow> (db, Inl e)
      | Inr None \<Rightarrow> (db, Inl (MenuNotFoundError menu_id))
      | Inr (Some menu) \<Rightarrow>
     (case SubmenuRepository_find db submenu_id (Some (Session 0)) (Session 1) of
        Inl e \<Rightarrow> (db, Inl e)
      | Inr None \<Rightarrow> (db, Inl (SubmenuNotFoundError submenu_id))
      | Inr (Some submenu) \<Rightarrow>
          if \<not> submenu_in submenu (m_submenus menu)
          then (db, Inl (SubmenuNotIncludedInMenuError menu_id submenu_id))
          else
     (case SubmenuRepository_save db Persistent
             (submenu\<lparr>s_title := py_or str_truthy corrected_title (s_title submenu),
                      s_description :=
                        py_or str_truthy corrected_description (s_description submenu)\<rparr>)
             (Some (Session 0)) (Session 1) of
        Inl e \<Rightarrow> (db, Inl e)
      | Inr (db', submenu') \<Rightarrow> (db', Inr (submenu_mapping submenu'))))))"

definition delete_menu_submenu ::
    "database \<Rightarrow> uuid \<Rightarrow> uuid \<Rightarrow> database \<times> (error + SubmenuMapping)" where
  "delete_menu_submenu db0 menu_id submenu_id =
     session_begin db0 (\<lambda>db.
     (case MenuRepository_find db menu_id (Some (Session 0)) (Session 1) of
        Inl e \<Rightarrow> (db, Inl e)
      | Inr None \<Rightarrow> (db, Inl (MenuNotFoundError menu_id))
      | Inr (Some menu) \<Rightarrow>
     (case SubmenuRepository_find db submenu_id (Some (Session 0)) (Session 1) of
        Inl e \<Rightarrow> (db, Inl e)
      | Inr None \<Rightarrow> (db, Inl (SubmenuNotFoundError submenu_id))
      | Inr (Some submenu) \<Rightarrow>
          (SubmenuRepository_delete db submenu, Inr (submenu_mapping submenu)))))"

section \<open>The specification's words\<close>

text \<open>
  Section 4.4 of the specification: a supplied value replaces the old value unless it is
  the type's empty or zero value (\<open>zero\<close>); a value that is not supplied replaces
  nothing.
\<close>

definition spec_corrected :: "'a \<Rightarrow> 'a option \<Rightarrow> 'a \<Rightarrow> 'a" where
  "spec_corrected zero supplied old =
     (case supplied of None \<Rightarrow> old | Some v \<Rightarrow> if v = zero then old else v)"

section \<open>States of the store\<close>

text \<open>The primary keys: no table holds two rows with one identifier.\<close>

definition pk_ok :: "database \<Rightarrow> bool" where
  "pk_ok db =
     (distinct (map mr_id (menus db)) \<and> distinct (map sr_id (submenus db)) \<and>
      distinct (map d_id (dishes db)))"

definition menu_ids :: "database \<Rightarrow> uuid set" where
  "menu_ids db = set (map mr_id (menus db))"

definition submenu_ids :: "database \<Rightarrow> uuid set" where
  "submenu_ids db = set (map sr_id (submenus db))"


definition empty_db :: database where
  "empty_db = \<lparr>menus = [], submenus = [], dishes = []\<rparr>"

text \<open>
  Example states. \<open>two_menus_db\<close>: Menus 1 and 2, and Submenu 10 created under
  Menu 1. \<open>aggregate_db\<close>: Menu 1, then Submenu 10 under it, then Dishes 100 and 101
  under that Submenu. \<open>stray_db\<close>: Menu 1 with Submenus 10 and 11, and Dish 100 of
  Submenu 11.
\<close>

definition two_menus_db :: database where
  "two_menus_db =
     fst (create_menu_submenu
       (fst (create_menu (fst (create_menu empty_db 1 ''A'' ''first'')) 2 ''B'' ''second''))
       10 1 ''S'' ''sub'')"

definition aggregate_db :: database where
  "aggregate_db =
     fst (add_dish_to_menu_submenu
       (fst (add_dish_to_menu_submenu
         (fst (create_menu_submenu (fst (create_menu empty_db 1 ''M'' ''menu''))
            10 1 ''S'' ''sub''))
         100 1 10 ''D1'' ''one'' 150))
       101 1 10 ''D2'' ''two'' 250)"

definition stray_db :: database where
  "stray_db =
     \<lparr>menus = [\<lparr>mr_id = 1, mr_title = ''M'', mr_description = ''menu''\<rparr>],
      submenus =
        [\<lparr>sr_id = 10, sr_title = ''S'', sr_description = ''sub'', sr_menu_id = 1\<rparr>,
         \<lparr>sr_id = 11, sr_title = ''T'', sr_description = ''other'', sr_menu_id = 1\<rparr>],
      dishes =
        [\<lparr>d_id = 100, d_title = ''D'', d_description = ''dish'', d_price = 150,
          d_submenu_id = 11\<rparr>]\<rparr>"

section \<open>The generic repository: lookups\<close>

lemma filter_key_absent:
  "entity_id \<notin> set (map key table) \<Longrightarrow> filter (\<lambda>r. key r = entity_id) table = []"
  by (induction table) auto

lemma filter_key_present:
  "distinct (map key table) \<Longrightarrow> r \<in> set table \<Longrightarrow> filter (\<lambda>x. key x = key r) table = [r]"
proof (induction table)
  case Nil
  then show ?case by simp
next
  case (Cons x xs)
  show ?case
  proof (cases "x = r")
    case True
    with Cons.prems have "key r \<notin> set (map key xs)" by simp
    then have "filter (\<lambda>x. key x = key r) xs = []" by (rule filter_key_absent)
    with True show ?thesis by simp
  next
    case False
    with Cons.prems have r: "r \<in> set xs" and d: "distinct (map key xs)" by auto
    from Cons.prems r have "key x \<noteq> key r" by force
    with Cons.IH [OF d r] show ?thesis by simp
  qed
qed

lemma find_absent:
  "entity_id \<notin> set (map key table) \<Longrightarrow> CRUDRepository_find key table entity_id = Inr None"
  by (simp add: CRUDRepository_find_def one_or_none_def filter_key_absent)

lemma find_present:
  "distinct (map key table) \<Longrightarrow> r \<in> set table \<Longrightarrow>
   CRUDRepository_find key table (key r) = Inr (Some r)"
  by (simp add: CRUDRepository_find_def one_or_none_def filter_key_present)

lemma find_Some_D:
  "CRUDRepository_find key table entity_id = Inr (Some r) \<Longrightarrow> r \<in> set table \<and> key r = entity_id"
proof -
  assume a: "CRUDRepository_find key table entity_id = Inr (Some r)"
  then have "filter (\<lambda>x. key x = entity_id) table = [r]"
    by (auto simp: CRUDRepository_find_def one_or_none_def split: list.splits)
  then have "r \<in> set (filter (\<lambda>x. key x = entity_id) table)" by simp
  then show ?thesis by simp
qed

lemma find_None_D:
  "CRUDRepository_find key table entity_id = Inr None \<Longrightarrow> entity_id \<notin> set (map key table)"
  by (auto simp: CRUDRepository_find_def one_or_none_def filter_empty_conv split: list.splits)

lemma find_duplicate:
  assumes "r \<in> set table" "r' \<in> set table" "r \<noteq> r'" "key r = key r'"
  shows "CRUDRepository_find key table (key r) = Inl MultipleResultsFound"
proof (cases "filter (\<lambda>x. key x = key r) table")
  case Nil
  with assms(1) show ?thesis by (auto simp: filter_empty_conv)
next
  case (Cons x xs)
  show ?thesis
  proof (cases xs)
    case Nil
    with Cons have "set (filter (\<lambda>x. key x = key r) table) = {x}" by simp
    with assms have "r = x" "r' = x" by auto
    with assms(3) show ?thesis by simp
  next
    case (Cons y ys)
    with \<open>filter (\<lambda>x. key x = key r) table = x # xs\<close> show ?thesis
      by (simp add: CRUDRepository_find_def one_or_none_def)
  qed
qed

subsection \<open>The three repositories\<close>


lemma menu_find_present:
  "pk_ok db \<Longrightarrow> m \<in> set (menus db) \<Longrightarrow>
   MenuRepository_find db (mr_id m) sess w = Inr (Some (load_menu (wrap_session sess w) db m))"
  by (simp add: MenuRepository_find_def pk_ok_def find_present)

lemma submenu_find_absent:
  "submenu_id \<notin> submenu_ids db \<Longrightarrow> SubmenuRepository_find db submenu_id sess w = Inr None"
  by (simp add: SubmenuRepository_find_def submenu_ids_def find_absent)

lemma submenu_find_present:
  "pk_ok db \<Longrightarrow> s \<in> set (submenus db) \<Longrightarrow>
   SubmenuRepository_find db (sr_id s) sess w = Inr (Some (load_submenu (wrap_session sess w) db s))"
  by (simp add: SubmenuRepository_find_def pk_ok_def find_present)


lemma dish_find_present:
  "pk_ok db \<Longrightarrow> d \<in> set (dishes db) \<Longrightarrow>
   DishRepository_find db (d_id d) sess w = Inr (Some d)"
  by (simp add: DishRepository_find_def pk_ok_def find_present)

subsection \<open>Membership of a loaded Submenu in a loaded Menu\<close>

lemma submenu_in_other_session:
  "sess \<noteq> sess' \<Longrightarrow> \<not> submenu_in (load_submenu sess db r) (map (load_submenu sess' db') rows)"
  by (simp add: submenu_in_def list_ex_iff submenu_is_def load_submenu_def)

lemma submenu_in_same_session:
  "submenu_in (load_submenu sess db r) (map (load_submenu sess db') rows)
   \<longleftrightarrow> sr_id r \<in> set (map sr_id rows)"
  by (auto simp: submenu_in_def list_ex_iff submenu_is_def load_submenu_def)

lemma submenu_in_menu:
  "pk_ok db \<Longrightarrow> s \<in> set (submenus db) \<Longrightarrow>
   submenu_in (load_submenu sess db s) (m_submenus (load_menu sess db m))
   \<longleftrightarrow> sr_menu_id s = mr_id m"
proof -
  assume pk: "pk_ok db" and s: "s \<in> set (submenus db)"
  have "sr_id s \<in> set (map sr_id (filter (\<lambda>x. sr_menu_id x = mr_id m) (submenus db)))
        \<longleftrightarrow> sr_menu_id s = mr_id m"
  proof
    assume "sr_id s \<in> set (map sr_id (filter (\<lambda>x. sr_menu_id x = mr_id m) (submenus db)))"
    then obtain x where x: "x \<in> set (submenus db)" "sr_menu_id x = mr_id m" "sr_id x = sr_id s"
      by auto
    from pk have "inj_on sr_id (set (submenus db))"
      by (simp add: pk_ok_def distinct_map)
    with x s have "x = s" by (auto dest: inj_onD)
    with x show "sr_menu_id s = mr_id m" by simp
  next
    assume "sr_menu_id s = mr_id m"
    with s show "sr_id s \<in> set (map sr_id (filter (\<lambda>x. sr_menu_id x = mr_id m) (submenus db)))"
      by force
  qed
  then show ?thesis
    by (simp add: load_menu_def submenu_in_same_session)
qed

lemma submenu_not_in_menu_unshared:
  "sess \<noteq> sess' \<Longrightarrow>
   \<not> submenu_in (load_submenu sess db s) (m_submenus (load_menu sess' db' m))"
  by (simp add: load_menu_def submenu_in_other_session)

section \<open>The example states\<close>

lemma two_menus_db_eq:
  "two_menus_db =
     \<lparr>menus = [\<lparr>mr_id = 1, mr_title = ''A'', mr_description = ''first''\<rparr>,
               \<lparr>mr_id = 2, mr_title = ''B'', mr_description = ''second''\<rparr>],
      submenus = [\<lparr>sr_id = 10, sr_title = ''S'', sr_description = ''sub'', sr_menu_id = 1\<rparr>],
      dishes = []\<rparr>"
  by code_simp

lemma aggregate_db_eq:
  "aggregate_db =
     \<lparr>menus = [\<lparr>mr_id = 1, mr_title = ''M'', mr_description = ''menu''\<rparr>],
      submenus = [\<lparr>sr_id = 10, sr_title = ''S'', sr_description = ''sub'', sr_menu_id = 1\<rparr>],
      dishes =
        [\<lparr>d_id = 100, d_title = ''D1'', d_description = ''one'', d_price = 150,
          d_submenu_id = 10\<rparr>,
         \<lparr>d_id = 101, d_title = ''D2'', d_description = ''two'', d_price = 250,
          d_submenu_id = 10\<rparr>]\<rparr>"
  by code_simp

lemma pk_ok_two_menus_db: "pk_ok two_menus_db"
  by (simp add: two_menus_db_eq pk_ok_def)

lemma pk_ok_aggregate_db: "pk_ok aggregate_db"
  by (simp add: aggregate_db_eq pk_ok_def)

lemma pk_ok_stray_db: "pk_ok stray_db"
  by (simp add: stray_db_def pk_ok_def)

section \<open>The order of the checks\<close>

lemma session_begin_Inl: "body db = (db', Inl e) \<Longrightarrow> session_begin db body = (db, Inl e)"
  by (simp add: session_begin_def)

lemma session_begin_Inr: "body db = (db', Inr r) \<Longrightarrow> session_begin db body = (db', Inr r)"
  by (simp add: session_begin_def)

lemma menu_ids_D: "menu_id \<in> menu_ids db \<Longrightarrow> \<exists>m \<in> set (menus db). mr_id m = menu_id"
  by (auto simp: menu_ids_def)


lemma dish_check_submenu:
  assumes "pk_ok db" "m \<in> set (menus db)" "sr \<notin> submenu_ids db"
  shows "get_dish_in_menu_submenu db (mr_id m) sr dish_id = Inl (SubmenuNotFoundError sr)"
    and "correct_dish_in_menu_submenu db (mr_id m) sr dish_id ct cd cp
           = (db, Inl (SubmenuNotFoundError sr))"
    and "remove_dish_from_menu_submenu db (mr_id m) sr dish_id
           = (db, Inl (SubmenuNotFoundError sr))"
  using assms
  by (simp_all add: get_dish_in_menu_submenu_def correct_dish_in_menu_submenu_def
        remove_dish_from_menu_submenu_def session_begin_def menu_find_present
        submenu_find_absent)



section \<open>What the read operations return\<close>

lemma menu_find_Some_D:
  "MenuRepository_find db menu_id sess w = Inr (Some menu) \<Longrightarrow>
   \<exists>m \<in> set (menus db). mr_id m = menu_id \<and> menu = load_menu (wrap_session sess w) db m"
  by (auto simp: MenuRepository_find_def split: sum.splits dest: find_Some_D)

lemma submenu_find_Some_D:
  "SubmenuRepository_find db submenu_id sess w = Inr (Some submenu) \<Longrightarrow>
   \<exists>s \<in> set (submenus db). sr_id s = submenu_id \<and>
      submenu = load_submenu (wrap_session sess w) db s"
  by (auto simp: SubmenuRepository_find_def split: sum.splits dest: find_Some_D)

lemma unshared_check_fails:
  assumes "MenuRepository_find db menu_id None (Session 0) = Inr (Some menu)"
    and "SubmenuRepository_find db submenu_id None (Session 1) = Inr (Some submenu)"
  shows "\<not> submenu_in submenu (m_submenus menu)"
proof -
  from assms(1) obtain m where "menu = load_menu (Session 0) db m"
    by (auto dest: menu_find_Some_D simp: wrap_session_def)
  moreover from assms(2) obtain s where "submenu = load_submenu (Session 1) db s"
    by (auto dest: submenu_find_Some_D simp: wrap_session_def)
  ultimately show ?thesis
    by (simp add: submenu_not_in_menu_unshared)
qed

lemma get_menu_submenu_never_returns: "get_menu_submenu db menu_id submenu_id \<noteq> Inr r"
  by (auto simp: get_menu_submenu_def unshared_check_fails
      split: sum.splits option.splits)

lemma get_dish_in_menu_submenu_never_returns:
  "get_dish_in_menu_submenu db menu_id submenu_id dish_id \<noteq> Inr r"
  by (auto simp: get_dish_in_menu_submenu_def unshared_check_fails
      split: sum.splits option.splits)

lemma get_dishes_in_menu_submenu_returns_nothing:
  "get_dishes_in_menu_submenu db menu_id submenu_id = Inr r \<Longrightarrow> r = []"
  by (auto simp: get_dishes_in_menu_submenu_def unshared_check_fails
      split: sum.splits option.splits)

lemma get_menu_submenu_included:
  assumes "pk_ok db" "m \<in> set (menus db)" "s \<in> set (submenus db)"
  shows "get_menu_submenu db (mr_id m) (sr_id s)
           = Inl (SubmenuNotIncludedInMenuError (mr_id m) (sr_id s))"
  using assms
  by (simp add: get_menu_submenu_def menu_find_present submenu_find_present wrap_session_def
        submenu_not_in_menu_unshared)

lemma get_menu_present:
  assumes "pk_ok db" "m \<in> set (menus db)"
  shows "get_menu db (mr_id m) = Inr (menu_mapping (load_menu (Session 0) db m))"
  using assms by (simp add: get_menu_def menu_find_present wrap_session_def)

lemma menu_mapping_counts:
  "mm_submenus_count (menu_mapping (load_menu sess db m))
     = length (filter (\<lambda>s. sr_menu_id s = mr_id m) (submenus db))"
  "mm_dishes_count (menu_mapping (load_menu sess db m))
     = sum_list (map (\<lambda>s. length (filter (\<lambda>d. d_submenu_id d = sr_id s) (dishes db)))
         (filter (\<lambda>s. sr_menu_id s = mr_id m) (submenus db)))"
  by (simp_all add: menu_mapping_def load_menu_def load_submenu_def comp_def)

lemma get_menu_submenus_present:
  assumes "pk_ok db" "m \<in> set (menus db)"
  shows "get_menu_submenus db (mr_id m)
           = Inr (map (\<lambda>s. submenu_mapping (load_submenu (Session 1) db s)) (submenus db))"
  using assms
  by (simp add: get_menu_submenus_def menu_find_present SubmenuRepository_find_all_def
      CRUDRepository_find_all_def wrap_session_def)

lemma delete_menu_submenu_present:
  assumes "pk_ok db" "m \<in> set (menus db)" "s \<in> set (submenus db)"
  shows "delete_menu_submenu db (mr_id m) (sr_id s)
           = (SubmenuRepository_delete db (load_submenu (Session 0) db s),
              Inr (submenu_mapping (load_submenu (Session 0) db s)))"
  using assms
  by (simp add: delete_menu_submenu_def session_begin_def menu_find_present
      submenu_find_present wrap_session_def)

section \<open>What the mutating operations do\<close>

lemma py_or_str: "py_or str_truthy x y = spec_corrected [] x y"
  by (simp add: py_or_def str_truthy_def spec_corrected_def split: option.splits)

lemma py_or_decimal: "py_or decimal_truthy x y = spec_corrected 0 x y"
  by (simp add: py_or_def decimal_truthy_def spec_corrected_def split: option.splits)

lemma save_transient:
  "key entity \<notin> set (map key table) \<Longrightarrow>
   CRUDRepository_save key table Transient entity = Inr (table @ [entity])"
  by (simp add: CRUDRepository_save_def)

lemma save_persistent:
  "CRUDRepository_save key table Persistent entity
     = Inr (map (\<lambda>r. if key r = key entity then entity else r) table)"
  by (simp add: CRUDRepository_save_def)

lemma save_persistent_keys:
  "map key (map (\<lambda>r. if key r = key entity then entity else r) table) = map key table"
  by (induction table) auto

lemma save_persistent_unique:
  "distinct (map key table) \<Longrightarrow> r \<in> set table \<Longrightarrow> key entity = key r \<Longrightarrow>
   filter (\<lambda>x. key x = key r) (map (\<lambda>x. if key x = key entity then entity else x) table)
     = [entity]"
proof (induction table)
  case Nil
  then show ?case by simp
next
  case (Cons x xs)
  show ?case
  proof (cases "key x = key r")
    case True
    with Cons.prems have "key r \<notin> set (map key xs)" by auto
    then have "key r \<notin> set (map key (map (\<lambda>x. if key x = key entity then entity else x) xs))"
      by (metis save_persistent_keys)
    then have "filter (\<lambda>x. key x = key r)
                 (map (\<lambda>x. if key x = key entity then entity else x) xs) = []"
      by (rule filter_key_absent)
    with True Cons.prems(3) show ?thesis by simp
  next
    case False
    with Cons.prems have "r \<in> set xs" "distinct (map key xs)" by auto
    from Cons.IH [OF this(2) this(1) Cons.prems(3)] False Cons.prems(3) show ?thesis by simp
  qed
qed

subsection \<open>Creating a Submenu\<close>

lemma create_menu_submenu_succeeds:
  assumes "pk_ok db" "m \<in> set (menus db)" "generated_id \<notin> submenu_ids db"
  shows "create_menu_submenu db generated_id (mr_id m) title description =
           (db\<lparr>submenus := submenus db @
                  [\<lparr>sr_id = generated_id, sr_title = title, sr_description = description,
                    sr_menu_id = mr_id m\<rparr>]\<rparr>,
            Inr \<lparr>sm_id = generated_id, sm_title = title, sm_description = mr_description m,
                 sm_dishes_count =
                   length (filter (\<lambda>d. d_submenu_id d = generated_id) (dishes db))\<rparr>)"
  using assms
  by (simp add: create_menu_submenu_def session_begin_def menu_find_present
      SubmenuRepository_save_def save_transient submenu_row_def submenu_ids_def
      wrap_session_def load_menu_def load_submenu_def)

subsection \<open>Correcting\<close>

lemma correct_dish_succeeds:
  assumes "pk_ok db" "m \<in> set (menus db)" "s \<in> set (submenus db)" "sr_menu_id s = mr_id m"
    "d \<in> set (dishes db)" "numeric_12_2 (spec_corrected 0 cp (d_price d))"
  shows "correct_dish_in_menu_submenu db (mr_id m) (sr_id s) (d_id d) ct cd cp =
           (db\<lparr>dishes := map (\<lambda>r. if d_id r = d_id d
                                then d\<lparr>d_title := spec_corrected [] ct (d_title d),
                                       d_description := spec_corrected [] cd (d_description d),
                                       d_price := spec_corrected 0 cp (d_price d)\<rparr>
                                else r) (dishes db)\<rparr>,
            Inr \<lparr>dm_id = d_id d, dm_title = spec_corrected [] ct (d_title d),
                 dm_description = spec_corrected [] cd (d_description d),
                 dm_price = spec_corrected 0 cp (d_price d)\<rparr>)"
  using assms
  by (simp add: correct_dish_in_menu_submenu_def session_begin_def menu_find_present
      submenu_find_present dish_find_present wrap_session_def submenu_in_menu
      DishRepository_save_def save_persistent py_or_str py_or_decimal dish_mapping_def)

lemma correct_menu_submenu_succeeds:
  assumes "pk_ok db" "m \<in> set (menus db)" "s \<in> set (submenus db)" "sr_menu_id s = mr_id m"
  shows "correct_menu_submenu db (mr_id m) (sr_id s) ct cd =
           (db\<lparr>submenus := map (\<lambda>r. if sr_id r = sr_id s
                                  then \<lparr>sr_id = sr_id s,
                                        sr_title = spec_corrected [] ct (sr_title s),
                                        sr_description =
                                          spec_corrected [] cd (sr_description s),
                                        sr_menu_id = sr_menu_id s\<rparr>
                                  else r) (submenus db)\<rparr>,
            Inr \<lparr>sm_id = sr_id s, sm_title = spec_corrected [] ct (sr_title s),
                 sm_description = spec_corrected [] cd (sr_description s),
                 sm_dishes_count =
                   length (filter (\<lambda>d. d_submenu_id d = sr_id s) (dishes db))\<rparr>)"
proof -
  have f1: "\<And>w. MenuRepository_find db (mr_id m) (Some (Session 0)) w
              = Inr (Some (load_menu (Session 0) db m))"
    using assms by (simp add: menu_find_present wrap_session_def)
  have f2: "\<And>w. SubmenuRepository_find db (sr_id s) (Some (Session 0)) w
              = Inr (Some (load_submenu (Session 0) db s))"
    using assms by (simp add: submenu_find_present wrap_session_def)
  have inc: "submenu_in (load_submenu (Session 0) db s) (m_submenus (load_menu (Session 0) db m))"
    using assms by (simp add: submenu_in_menu)
  show ?thesis
    unfolding correct_menu_submenu_def session_begin_def
    using inc
    by (simp add: f1 f2 SubmenuRepository_save_def save_persistent py_or_str
        submenu_mapping_def load_submenu_def submenu_row_def wrap_session_def Let_def)
qed

lemma correct_menu_succeeds:
  assumes "pk_ok db" "m \<in> set (menus db)"
  shows "correct_menu db (mr_id m) ct cd =
           (db\<lparr>menus := map (\<lambda>r. if mr_id r = mr_id m
                               then \<lparr>mr_id = mr_id m,
                                     mr_title = spec_corrected [] ct (mr_title m),
                                     mr_description =
                                       spec_corrected [] cd (mr_description m)\<rparr>
                               else r) (menus db)\<rparr>,
            Inr \<lparr>mm_id = mr_id m, mm_title = spec_corrected [] ct (mr_title m),
                 mm_description = spec_corrected [] cd (mr_description m),
                 mm_dishes_count =
                   sum_list (map (\<lambda>s. length (filter (\<lambda>d. d_submenu_id d = sr_id s) (dishes db)))
                     (filter (\<lambda>s. sr_menu_id s = mr_id m) (submenus db))),
                 mm_submenus_count =
                   length (filter (\<lambda>s. sr_menu_id s = mr_id m) (submenus db))\<rparr>)"
  using assms
  by (simp add: correct_menu_def session_begin_def menu_find_present wrap_session_def
      MenuRepository_save_def save_persistent py_or_str menu_mapping_def
      load_menu_def load_submenu_def menu_row_def comp_def Let_def)

subsection \<open>Removing a Dish\<close>

lemma remove_dish_succeeds:
  assumes "pk_ok db" "m \<in> set (menus db)" "s \<in> set (submenus db)" "sr_menu_id s = mr_id m"
    "d \<in> set (dishes db)"
  shows "remove_dish_from_menu_submenu db (mr_id m) (sr_id s) (d_id d) =
           (db\<lparr>dishes := filter (\<lambda>r. d_id r \<noteq> d_id d) (dishes db)\<rparr>,
            Inr \<lparr>dm_id = d_id d, dm_title = d_title d, dm_description = d_description d,
                 dm_price = d_price d\<rparr>)"
  using assms
  by (simp add: remove_dish_from_menu_submenu_def session_begin_def menu_find_present
      submenu_find_present dish_find_present wrap_session_def submenu_in_menu
      DishRepository_delete_def CRUDRepository_delete_def dish_mapping_def)

subsection \<open>Failure\<close>


lemma session_begin_discards_writes: "session_begin db (\<lambda>view. (db', Inl e)) = (db, Inl e)"
  by (simp add: session_begin_def)

subsection \<open>The primary keys are kept\<close>

lemma save_keeps_keys:
  assumes "distinct (map key table)" "CRUDRepository_save key table st entity = Inr table'"
  shows "distinct (map key table')"
proof (cases st)
  case Transient
  with assms show ?thesis
    by (auto simp: CRUDRepository_save_def split: if_splits)
next
  case Persistent
  with assms(2) have "table' = map (\<lambda>r. if key r = key entity then entity else r) table"
    by (simp add: save_persistent)
  then have "map key table' = map key table"
    by (simp only: save_persistent_keys)
  with assms(1) show ?thesis by simp
qed

lemma delete_keeps_keys:
  "distinct (map key table) \<Longrightarrow> distinct (map key (CRUDRepository_delete key table entity_id))"
  by (simp add: CRUDRepository_delete_def distinct_map_filter)

lemma session_begin_pk_ok:
  assumes "pk_ok db" "\<And>db' r. body db = (db', Inr r) \<Longrightarrow> pk_ok db'"
  shows "pk_ok (fst (session_begin db body))"
  using assms by (auto simp: session_begin_def split: prod.splits sum.splits)

lemma menu_save_pk_ok:
  "pk_ok db \<Longrightarrow> MenuRepository_save db st entity sess w = Inr (db', menu) \<Longrightarrow> pk_ok db'"
  by (auto simp: MenuRepository_save_def pk_ok_def Let_def split: sum.splits
      dest: save_keeps_keys)

lemma submenu_save_pk_ok:
  "pk_ok db \<Longrightarrow> SubmenuRepository_save db st entity sess w = Inr (db', submenu) \<Longrightarrow> pk_ok db'"
  by (auto simp: SubmenuRepository_save_def pk_ok_def Let_def split: sum.splits if_splits
      dest: save_keeps_keys)

lemma dish_save_pk_ok:
  "pk_ok db \<Longrightarrow> DishRepository_save db st entity sess w = Inr (db', dish) \<Longrightarrow> pk_ok db'"
  by (auto simp: DishRepository_save_def pk_ok_def split: sum.splits if_splits
      dest: save_keeps_keys)

lemma menu_delete_pk_ok: "pk_ok db \<Longrightarrow> pk_ok (MenuRepository_delete db menu)"
  by (simp add: MenuRepository_delete_def pk_ok_def Let_def delete_keeps_keys distinct_map_filter)

lemma submenu_delete_pk_ok: "pk_ok db \<Longrightarrow> pk_ok (SubmenuRepository_delete db submenu)"
  by (simp add: SubmenuRepository_delete_def pk_ok_def delete_keeps_keys distinct_map_filter)

lemma dish_delete_pk_ok: "pk_ok db \<Longrightarrow> pk_ok (DishRepository_delete db dish)"
  by (simp add: DishRepository_delete_def pk_ok_def delete_keeps_keys)

lemma pk_ok_empty_db: "pk_ok empty_db"
  by (simp add: pk_ok_def empty_db_def)

lemma operations_keep_pk_ok:
  assumes "pk_ok db"
  shows "pk_ok (fst (create_menu db g title description))"
    and "pk_ok (fst (correct_menu db menu_id ct cd))"
    and "pk_ok (fst (delete_menu db menu_id))"
    and "pk_ok (fst (create_menu_submenu db g menu_id title description))"
    and "pk_ok (fst (correct_menu_submenu db menu_id submenu_id ct cd))"
    and "pk_ok (fst (delete_menu_submenu db menu_id submenu_id))"
    and "pk_ok (fst (add_dish_to_menu_submenu db g menu_id submenu_id title description price))"
    and "pk_ok (fst (correct_dish_in_menu_submenu db menu_id submenu_id dish_id ct cd cp))"
    and "pk_ok (fst (remove_dish_from_menu_submenu db menu_id submenu_id dish_id))"
  unfolding create_menu_def correct_menu_def delete_menu_def create_menu_submenu_def
    correct_menu_submenu_def delete_menu_submenu_def add_dish_to_menu_submenu_def
    correct_dish_in_menu_submenu_def remove_dish_from_menu_submenu_def
  using assms
  by (auto intro!: session_begin_pk_ok
      split: sum.splits option.splits if_splits
      dest: menu_save_pk_ok submenu_save_pk_ok dish_save_pk_ok
      simp: menu_delete_pk_ok submenu_delete_pk_ok dish_delete_pk_ok)

subsection \<open>A Submenu addressed under another Menu\<close>

lemma correct_menu_submenu_refuses:
  assumes "pk_ok db" "m \<in> set (menus db)" "s \<in> set (submenus db)" "sr_menu_id s \<noteq> mr_id m"
  shows "correct_menu_submenu db (mr_id m) (sr_id s) ct cd
           = (db, Inl (SubmenuNotIncludedInMenuError (mr_id m) (sr_id s)))"
  using assms
  by (simp add: correct_menu_submenu_def session_begin_def menu_find_present
      submenu_find_present wrap_session_def submenu_in_menu)

lemma other_menu_get_and_correct_refuse:
  "get_menu_submenu two_menus_db 2 10 = Inl (SubmenuNotIncludedInMenuError 2 10)"
  "correct_menu_submenu two_menus_db 2 10 (Some ''x'') (Some ''y'')
     = (two_menus_db, Inl (SubmenuNotIncludedInMenuError 2 10))"
  by code_simp+

subsection \<open>The aggregate example, read through the other operations\<close>

lemma aggregate_list_and_correct_report_count:
  "get_menu_submenus aggregate_db 1 =
     Inr [\<lparr>sm_id = 10, sm_title = ''S'', sm_description = ''sub'', sm_dishes_count = 2\<rparr>]"
  "snd (correct_menu_submenu aggregate_db 1 10 None None) =
     Inr \<lparr>sm_id = 10, sm_title = ''S'', sm_description = ''sub'', sm_dishes_count = 2\<rparr>"
  by code_simp+

subsection \<open>A Dish of another Submenu\<close>

text \<open>
  When the Menu exists, the Submenu exists and belongs to it, and the Dish exists but
  belongs to another Submenu, correcting the Dish and removing it under the addressed
  Submenu succeed: neither compares the Dish's \<^verbatim>\<open>submenu_id\<close> with the
  addressed Submenu. \<open>stray_db\<close> is such a state.
\<close>

lemma stray_dish_correct_and_remove_succeed:
  assumes "pk_ok db" "m \<in> set (menus db)" "s \<in> set (submenus db)" "sr_menu_id s = mr_id m"
    "d \<in> set (dishes db)" "d_submenu_id d \<noteq> sr_id s"
  shows
    "remove_dish_from_menu_submenu db (mr_id m) (sr_id s) (d_id d) =
       (db\<lparr>dishes := filter (\<lambda>r. d_id r \<noteq> d_id d) (dishes db)\<rparr>,
        Inr \<lparr>dm_id = d_id d, dm_title = d_title d, dm_description = d_description d,
             dm_price = d_price d\<rparr>) \<and>
     (numeric_12_2 (spec_corrected 0 cp (d_price d)) \<longrightarrow>
      correct_dish_in_menu_submenu db (mr_id m) (sr_id s) (d_id d) ct cd cp =
       (db\<lparr>dishes := map (\<lambda>r. if d_id r = d_id d
                            then d\<lparr>d_title := spec_corrected [] ct (d_title d),
                                   d_description := spec_corrected [] cd (d_description d),
                                   d_price := spec_corrected 0 cp (d_price d)\<rparr>
                            else r) (dishes db)\<rparr>,
        Inr \<lparr>dm_id = d_id d, dm_title = spec_corrected [] ct (d_title d),
             dm_description = spec_corrected [] cd (d_description d),
             dm_price = spec_corrected 0 cp (d_price d)\<rparr>))"
  using assms(1-5)
  by (intro conjI impI) (simp_all only: remove_dish_succeeds correct_dish_succeeds)

lemma stray_db_correct_and_remove_succeed:
  "remove_dish_from_menu_submenu stray_db 1 10 100 =
     (stray_db\<lparr>dishes := []\<rparr>,
      Inr \<lparr>dm_id = 100, dm_title = ''D'', dm_description = ''dish'', dm_price = 150\<rparr>) \<and>
   correct_dish_in_menu_submenu stray_db 1 10 100 (Some ''E'') None (Some 275) =
     (stray_db\<lparr>dishes :=
        [\<lparr>d_id = 100, d_title = ''E'', d_description = ''dish'', d_price = 275,
          d_submenu_id = 11\<rparr>]\<rparr>,
      Inr \<lparr>dm_id = 100, dm_title = ''E'', dm_description = ''dish'', dm_price = 275\<rparr>)"
proof -
  let ?m = "\<lparr>mr_id = 1, mr_title = ''M'', mr_description = ''menu''\<rparr>"
  let ?s = "\<lparr>sr_id = 10, sr_title = ''S'', sr_description = ''sub'', sr_menu_id = 1\<rparr>"
  let ?d = "\<lparr>d_id = 100, d_title = ''D'', d_description = ''dish'', d_price = 150,
             d_submenu_id = 11\<rparr>"
  have h: "?m \<in> set (menus stray_db)" "?s \<in> set (submenus stray_db)"
    "sr_menu_id ?s = mr_id ?m" "?d \<in> set (dishes stray_db)" "d_submenu_id ?d \<noteq> sr_id ?s"
    by (simp_all add: stray_db_def)
  from stray_dish_correct_and_remove_succeed
    [OF pk_ok_stray_db h, where cp = "Some 275" and ct = "Some ''E''" and cd = None]
  show ?thesis
    by (simp add: stray_db_def spec_corrected_def numeric_12_2_def)
qed

section \<open>Claims\<close>



text \<open>
  C2 fails for the delete. In \<open>two_menus_db\<close> Submenu 10 was created under Menu 1,
  and Menu 2 exists. \<^verbatim>\<open>delete_menu_submenu\<close> has no membership check
  (services.py, lines 556 to 567): addressed under Menu 2 it deletes Submenu 10 and returns
  it, where the claim, and the operation's own docstring, say
  \<^verbatim>\<open>SubmenuNotIncludedInMenuError\<close>. (The get and the correct do refuse:
  \<open>other_menu_get_and_correct_refuse\<close>.)
\<close>

theorem delete_submenu_under_other_menu:
  "delete_menu_submenu two_menus_db 2 10 =
     (\<lparr>menus = [\<lparr>mr_id = 1, mr_title = ''A'', mr_description = ''first''\<rparr>,
                \<lparr>mr_id = 2, mr_title = ''B'', mr_description = ''second''\<rparr>],
       submenus = [], dishes = []\<rparr>,
      Inr \<lparr>sm_id = 10, sm_title = ''S'', sm_description = ''sub'', sm_dishes_count = 0\<rparr>)"
  by code_simp

text \<open>
  C3 fails. \<^verbatim>\<open>get_menu_submenus\<close> returns every row of the Submenu table
  (\<^verbatim>\<open>find_all\<close>), whatever Menu it is addressed to: under Menu 2 of
  \<open>two_menus_db\<close>, which owns no Submenu, it lists Submenu 10 of Menu 1.
\<close>

theorem list_submenus_returns_other_menus_submenus:
  "get_menu_submenus two_menus_db 2 =
     Inr [\<lparr>sm_id = 10, sm_title = ''S'', sm_description = ''sub'', sm_dishes_count = 0\<rparr>]"
  by code_simp

text \<open>
  C4. Under an existing Menu and a Submenu identifier with no row, listing the Dishes
  returns the empty list and getting one Dish fails with
  \<^verbatim>\<open>SubmenuNotFoundError\<close>.
\<close>

theorem list_dishes_empty_where_get_dish_fails:
  assumes "pk_ok db" "menu_id \<in> menu_ids db" "submenu_id \<notin> submenu_ids db"
  shows "get_dishes_in_menu_submenu db menu_id submenu_id = Inr [] \<and>
         get_dish_in_menu_submenu db menu_id submenu_id dish_id
           = Inl (SubmenuNotFoundError submenu_id)"
proof -
  from assms(2) obtain m where m: "m \<in> set (menus db)" "mr_id m = menu_id"
    by (auto dest: menu_ids_D)
  have "get_dishes_in_menu_submenu db (mr_id m) submenu_id = Inr []"
    using assms(1,3) m(1)
    by (simp add: get_dishes_in_menu_submenu_def menu_find_present submenu_find_absent)
  moreover have "get_dish_in_menu_submenu db (mr_id m) submenu_id dish_id
                   = Inl (SubmenuNotFoundError submenu_id)"
    using assms(1) m(1) assms(3) by (rule dish_check_submenu)
  ultimately show ?thesis using m(2) by simp
qed

theorem list_dishes_empty_where_get_dish_fails_witness:
  "get_dishes_in_menu_submenu two_menus_db 1 98 = Inr [] \<and>
   get_dish_in_menu_submenu two_menus_db 1 98 99 = Inl (SubmenuNotFoundError 98)"
proof -
  have "(1::nat) \<in> menu_ids two_menus_db" "(98::nat) \<notin> submenu_ids two_menus_db"
    by (simp_all add: two_menus_db_eq menu_ids_def submenu_ids_def)
  from list_dishes_empty_where_get_dish_fails [OF pk_ok_two_menus_db this]
  show ?thesis .
qed

text \<open>
  C5. The three corrections (of a Menu, of a Submenu, of a Dish), when the addressed
  entities exist, succeed, and every mutable field follows the rule of \<open>spec_corrected\<close>,
  in the stored row and in the returned mapping: the supplied value replaces the old one
  unless it is the empty string (title, description) or zero (price), and then the old
  value stays. (A corrected price must fit the column.)
\<close>

theorem correction_replaces_unless_empty:
  assumes "pk_ok db" "m \<in> set (menus db)"
  shows
    "correct_menu db (mr_id m) ct cd =
       (db\<lparr>menus := map (\<lambda>r. if mr_id r = mr_id m
                           then \<lparr>mr_id = mr_id m,
                                 mr_title = spec_corrected [] ct (mr_title m),
                                 mr_description = spec_corrected [] cd (mr_description m)\<rparr>
                           else r) (menus db)\<rparr>,
        Inr \<lparr>mm_id = mr_id m, mm_title = spec_corrected [] ct (mr_title m),
             mm_description = spec_corrected [] cd (mr_description m),
             mm_dishes_count =
               sum_list (map (\<lambda>s. length (filter (\<lambda>d. d_submenu_id d = sr_id s) (dishes db)))
                 (filter (\<lambda>s. sr_menu_id s = mr_id m) (submenus db))),
             mm_submenus_count =
               length (filter (\<lambda>s. sr_menu_id s = mr_id m) (submenus db))\<rparr>) \<and>
     (s \<in> set (submenus db) \<and> sr_menu_id s = mr_id m \<longrightarrow>
      correct_menu_submenu db (mr_id m) (sr_id s) ct cd =
       (db\<lparr>submenus := map (\<lambda>r. if sr_id r = sr_id s
                              then \<lparr>sr_id = sr_id s,
                                    sr_title = spec_corrected [] ct (sr_title s),
                                    sr_description = spec_corrected [] cd (sr_description s),
                                    sr_menu_id = sr_menu_id s\<rparr>
                              else r) (submenus db)\<rparr>,
        Inr \<lparr>sm_id = sr_id s, sm_title = spec_corrected [] ct (sr_title s),
             sm_description = spec_corrected [] cd (sr_description s),
             sm_dishes_count = length (filter (\<lambda>d. d_submenu_id d = sr_id s) (dishes db))\<rparr>)) \<and>
     (s \<in> set (submenus db) \<and> sr_menu_id s = mr_id m \<and> d \<in> set (dishes db) \<and>
      numeric_12_2 (spec_corrected 0 cp (d_price d)) \<longrightarrow>
      correct_dish_in_menu_submenu db (mr_id m) (sr_id s) (d_id d) ct cd cp =
       (db\<lparr>dishes := map (\<lambda>r. if d_id r = d_id d
                            then d\<lparr>d_title := spec_corrected [] ct (d_title d),
                                   d_description := spec_corrected [] cd (d_description d),
                                   d_price := spec_corrected 0 cp (d_price d)\<rparr>
                            else r) (dishes db)\<rparr>,
        Inr \<lparr>dm_id = d_id d, dm_title = spec_corrected [] ct (d_title d),
             dm_description = spec_corrected [] cd (d_description d),
             dm_price = spec_corrected 0 cp (d_price d)\<rparr>))"
  using assms
  by (intro conjI impI)
    (simp_all only: correct_menu_succeeds correct_menu_submenu_succeeds correct_dish_succeeds)

theorem correction_replaces_unless_empty_witness:
  "correct_menu aggregate_db 1 (Some ''Lunch'') (Some []) =
     (aggregate_db\<lparr>menus := [\<lparr>mr_id = 1, mr_title = ''Lunch'', mr_description = ''menu''\<rparr>]\<rparr>,
      Inr \<lparr>mm_id = 1, mm_title = ''Lunch'', mm_description = ''menu'', mm_dishes_count = 2,
           mm_submenus_count = 1\<rparr>) \<and>
   correct_menu_submenu aggregate_db 1 10 (Some []) (Some ''soups'') =
     (aggregate_db\<lparr>submenus :=
        [\<lparr>sr_id = 10, sr_title = ''S'', sr_description = ''soups'', sr_menu_id = 1\<rparr>]\<rparr>,
      Inr \<lparr>sm_id = 10, sm_title = ''S'', sm_description = ''soups'', sm_dishes_count = 2\<rparr>) \<and>
   correct_dish_in_menu_submenu aggregate_db 1 10 100 (Some []) (Some ''new'') (Some 0) =
     (aggregate_db\<lparr>dishes :=
        [\<lparr>d_id = 100, d_title = ''D1'', d_description = ''new'', d_price = 150,
          d_submenu_id = 10\<rparr>,
         \<lparr>d_id = 101, d_title = ''D2'', d_description = ''two'', d_price = 250,
          d_submenu_id = 10\<rparr>]\<rparr>,
      Inr \<lparr>dm_id = 100, dm_title = ''D1'', dm_description = ''new'', dm_price = 150\<rparr>)"
proof -
  let ?m = "\<lparr>mr_id = 1, mr_title = ''M'', mr_description = ''menu''\<rparr>"
  let ?s = "\<lparr>sr_id = 10, sr_title = ''S'', sr_description = ''sub'', sr_menu_id = 1\<rparr>"
  let ?d = "\<lparr>d_id = 100, d_title = ''D1'', d_description = ''one'', d_price = 150,
             d_submenu_id = 10\<rparr>"
  have m: "?m \<in> set (menus aggregate_db)"
    by (simp add: aggregate_db_eq)
  from correction_replaces_unless_empty [OF pk_ok_aggregate_db m, of "Some ''Lunch''" "Some []"]
    correction_replaces_unless_empty
      [OF pk_ok_aggregate_db m, of "Some []" "Some ''soups''" ?s]
    correction_replaces_unless_empty
      [OF pk_ok_aggregate_db m, of "Some []" "Some ''new''" ?s ?d "Some 0"]
  show ?thesis
    by (simp add: aggregate_db_eq spec_corrected_def numeric_12_2_def)
qed



text \<open>
  C7 fails for the get of a Submenu. After Menu 1, Submenu 10 under it and two Dishes
  under that Submenu (\<open>aggregate_db\<close>), \<^verbatim>\<open>get_menu\<close> reports one Submenu and
  two Dishes, but \<^verbatim>\<open>get_menu_submenu\<close> raises
  \<^verbatim>\<open>SubmenuNotIncludedInMenuError\<close>: the Submenu it loads, in a session of its
  own, is never one of the objects in \<^verbatim>\<open>menu.submenus\<close>
  (\<open>get_menu_submenu_never_returns\<close>). The list of Submenus and the correction of
  Submenu 10, which shares one session, do report two Dishes
  (\<open>aggregate_list_and_correct_report_count\<close>).
\<close>

theorem aggregate_get_submenu_fails:
  "get_menu aggregate_db 1 =
     Inr \<lparr>mm_id = 1, mm_title = ''M'', mm_description = ''menu'', mm_dishes_count = 2,
          mm_submenus_count = 1\<rparr> \<and>
   get_menu_submenu aggregate_db 1 10 = Inl (SubmenuNotIncludedInMenuError 1 10)"
  by code_simp

text \<open>
  C8. The generic repository's \<^verbatim>\<open>find\<close>: under the primary key (no two rows of
  the table share an identifier) it returns the one row with the identifier when there is
  one, and \<^verbatim>\<open>None\<close>, not an error, when no row has it.
\<close>

theorem find_returns_entity_or_absent:
  assumes "distinct (map key table)"
  shows "(r \<in> set table \<and> key r = entity_id \<longrightarrow>
            CRUDRepository_find key table entity_id = Inr (Some r)) \<and>
         (entity_id \<notin> set (map key table) \<longrightarrow>
            CRUDRepository_find key table entity_id = Inr None)"
  using assms by (auto simp: find_present find_absent)

theorem find_returns_entity_or_absent_witness:
  "CRUDRepository_find mr_id (menus two_menus_db) 2 =
     Inr (Some \<lparr>mr_id = 2, mr_title = ''B'', mr_description = ''second''\<rparr>) \<and>
   CRUDRepository_find mr_id (menus two_menus_db) 3 = Inr None"
  using find_returns_entity_or_absent
    [of mr_id "menus two_menus_db" "\<lparr>mr_id = 2, mr_title = ''B'', mr_description = ''second''\<rparr>" 2]
    find_returns_entity_or_absent
    [of mr_id "menus two_menus_db" "\<lparr>mr_id = 2, mr_title = ''B'', mr_description = ''second''\<rparr>" 3]
  by (simp add: two_menus_db_eq)

text \<open>
  C9 fails for the get. In \<open>stray_db\<close> Menu 1 holds Submenus 10 and 11 and Dish 100
  belongs to Submenu 11, so the Menu exists, Submenu 10 exists and belongs to it, and the
  Dish exists under another Submenu. \<^verbatim>\<open>get_dish_in_menu_submenu\<close> loads
  the Menu and the Submenu in two sessions, so its membership check raises
  \<^verbatim>\<open>SubmenuNotIncludedInMenuError\<close> before the Dish is looked up, where the
  claim, and the operation's docstring, say the Dish is returned. The correct and the
  remove, which share one session, do succeed at the same identifiers
  (\<open>stray_db_correct_and_remove_succeed\<close>).
\<close>

theorem get_stray_dish_fails:
  "pk_ok stray_db \<and>
   \<lparr>mr_id = 1, mr_title = ''M'', mr_description = ''menu''\<rparr> \<in> set (menus stray_db) \<and>
   \<lparr>sr_id = 10, sr_title = ''S'', sr_description = ''sub'', sr_menu_id = 1\<rparr>
     \<in> set (submenus stray_db) \<and>
   \<lparr>d_id = 100, d_title = ''D'', d_description = ''dish'', d_price = 150, d_submenu_id = 11\<rparr>
     \<in> set (dishes stray_db) \<and>
   get_dish_in_menu_submenu stray_db 1 10 100 = Inl (SubmenuNotIncludedInMenuError 1 10)"
proof -
  have "get_dish_in_menu_submenu stray_db 1 10 100 = Inl (SubmenuNotIncludedInMenuError 1 10)"
    by code_simp
  then show ?thesis
    by (simp add: pk_ok_stray_db) (simp add: stray_db_def)
qed

text \<open>
  C10. Every successful \<^verbatim>\<open>create_menu_submenu\<close> returns, as
  \<^verbatim>\<open>description\<close>, the description of the Menu it was addressed to; the
  description it was given is the one stored in the new row. The identifier, the title and
  the count of Dishes are the created Submenu's.
\<close>

theorem created_submenu_reports_menu_description:
  assumes "create_menu_submenu db generated_id menu_id title description = (db', Inr r)"
  shows "\<exists>m \<in> set (menus db). mr_id m = menu_id \<and>
           sm_description r = mr_description m \<and>
           sm_id r = generated_id \<and> sm_title r = title \<and>
           sm_dishes_count r = length (filter (\<lambda>d. d_submenu_id d = generated_id) (dishes db')) \<and>
           \<lparr>sr_id = generated_id, sr_title = title, sr_description = description,
            sr_menu_id = menu_id\<rparr> \<in> set (submenus db')"
proof -
  from assms obtain menu where
    f: "MenuRepository_find db menu_id (Some (Session 0)) (Session 1) = Inr (Some menu)"
    by (auto simp: create_menu_submenu_def session_begin_def
        split: sum.splits option.splits prod.splits)
  then obtain m where m: "m \<in> set (menus db)" "mr_id m = menu_id"
    "menu = load_menu (Session 0) db m"
    by (auto dest: menu_find_Some_D simp: wrap_session_def)
  from assms f m(3) have
    "db' = db\<lparr>submenus := submenus db @
              [\<lparr>sr_id = generated_id, sr_title = title, sr_description = description,
                sr_menu_id = menu_id\<rparr>]\<rparr> \<and>
     r = \<lparr>sm_id = generated_id, sm_title = title, sm_description = mr_description m,
          sm_dishes_count = length (filter (\<lambda>d. d_submenu_id d = generated_id) (dishes db))\<rparr>"
    by (simp add: create_menu_submenu_def session_begin_def SubmenuRepository_save_def
        CRUDRepository_save_def submenu_row_def wrap_session_def load_menu_def
        load_submenu_def Let_def
        split: if_splits)
  with m(1,2) show ?thesis
    by (intro bexI [of _ m]) simp_all
qed

theorem created_submenu_reports_menu_description_witness:
  "create_menu_submenu (fst (create_menu empty_db 1 ''M'' ''menu'')) 10 1 ''S'' ''sub'' =
     (\<lparr>menus = [\<lparr>mr_id = 1, mr_title = ''M'', mr_description = ''menu''\<rparr>],
       submenus = [\<lparr>sr_id = 10, sr_title = ''S'', sr_description = ''sub'', sr_menu_id = 1\<rparr>],
       dishes = []\<rparr>,
      Inr \<lparr>sm_id = 10, sm_title = ''S'', sm_description = ''menu'', sm_dishes_count = 0\<rparr>) \<and>
   (\<exists>m \<in> set (menus (fst (create_menu empty_db 1 ''M'' ''menu''))).
      mr_id m = 1 \<and> mr_description m = ''menu'')"
proof -
  have e: "create_menu_submenu (fst (create_menu empty_db 1 ''M'' ''menu'')) 10 1 ''S'' ''sub'' =
     (\<lparr>menus = [\<lparr>mr_id = 1, mr_title = ''M'', mr_description = ''menu''\<rparr>],
       submenus = [\<lparr>sr_id = 10, sr_title = ''S'', sr_description = ''sub'', sr_menu_id = 1\<rparr>],
       dishes = []\<rparr>,
      Inr \<lparr>sm_id = 10, sm_title = ''S'', sm_description = ''menu'', sm_dishes_count = 0\<rparr>)"
    by code_simp
  from created_submenu_reports_menu_description [OF e] e show ?thesis
    by auto
qed

end
